theory Spec2Isabelle
  imports Complex_Main
begin

section \<open>Data model\<close>

text \<open>
  The record types of the application (\<^verbatim>\<open>types.ts\<close> is not among the sources; the
  fields are the ones the sources read and write: \<^verbatim>\<open>constants.tsx\<close> and the two forms
  of the admin view). Field names that clash between the records or with a HOL constant
  carry a suffix: \<open>_p\<close> for a project, \<open>_a\<close> for an archive item, \<open>_s\<close> for a service.
  The \<^verbatim>\<open>Category\<close> enumeration lists the two members that \<^verbatim>\<open>constants.tsx\<close> names.
\<close>

datatype Category = BRANDING | SPACE

datatype Status = IN_PROGRESS | COMPLETED | ARCHIVED

record Project =
  id_p :: string
  title_p :: string
  category_p :: Category
  date_p :: string
  description_p :: string
  imageUrls :: "string list"
  client :: string
  status :: Status

record ArchiveItem =
  id_a :: string
  year :: string
  company :: string
  category_a :: string
  project_a :: string
  imageUrl :: string

record Service =
  id_s :: string
  number_s :: string
  title_s :: string
  description_s :: string

record AppState =
  projects :: "Project list"
  archiveItems :: "ArchiveItem list"
  services :: "Service list"
  siteTitle :: string
  tagline :: string

subsection \<open>The built-in dataset (\<^verbatim>\<open>constants.tsx\<close>)\<close>

definition INITIAL_PROJECTS :: "Project list" where
  "INITIAL_PROJECTS =
    [\<lparr>id_p = ''ODM-PRJ-2004-001'', title_p = ''CYBER-PUNK BRANDING'', category_p = BRANDING,
      date_p = ''2004-03-12'',
      description_p = ''Visual identity system for a futuristic tech startup based in Seoul.'',
      imageUrls = [''https://picsum.photos/seed/odemind1/800/600''],
      client = ''NEO-SEOUL CO.'', status = COMPLETED\<rparr>,
     \<lparr>id_p = ''ODM-PRJ-2004-002'', title_p = ''URBAN SPACE DESIGN'', category_p = SPACE,
      date_p = ''2004-02-15'',
      description_p = ''Minimalist industrial interior design for a flagship concept store.'',
      imageUrls = [''https://picsum.photos/seed/odemind2/800/600''],
      client = ''VOID ATELIER'', status = COMPLETED\<rparr>]"

definition INITIAL_ARCHIVE :: "ArchiveItem list" where
  "INITIAL_ARCHIVE =
    [\<lparr>id_a = ''1'', year = ''2015 - Present'', company = ''Le Labo'',
      category_a = ''Retail, Beauty'', project_a = ''Ecommerce & Photography'',
      imageUrl = ''https://picsum.photos/seed/lelabo/400/600''\<rparr>,
     \<lparr>id_a = ''2'', year = ''2019 - Present'', company = ''Huckberry'',
      category_a = ''Retail, Apparel'', project_a = ''Headless Ecommerce Launch'',
      imageUrl = ''https://picsum.photos/seed/huckberry/400/600''\<rparr>]"

definition INITIAL_SERVICES :: "Service list" where
  "INITIAL_SERVICES =
    [\<lparr>id_s = ''S-01'', number_s = ''01'', title_s = ''CONTENT ARCHITECTURE'',
      description_s = ''Optimizing brand positioning through strategic planning that evolves with the times.''\<rparr>,
     \<lparr>id_s = ''S-02'', number_s = ''02'', title_s = ''BRANDING SYSTEMS'',
      description_s = ''Mastering brand positioning through strategic planning and evolved visual identity''\<rparr>]"

text \<open>The local \<^verbatim>\<open>defaultState\<close> of the state initialiser of \<^verbatim>\<open>App\<close>.\<close>

definition defaultState :: AppState where
  "defaultState =
    \<lparr>projects = INITIAL_PROJECTS, archiveItems = INITIAL_ARCHIVE, services = INITIAL_SERVICES,
     siteTitle = ''ODEMIND'',
     tagline = ''ODEMIND OPERATES AS AN ASIAN CONTENT AND DISTRIBUTION HUB, COLLABORATING WITH STRATEGIC PARTNERS ACROSS CHINA, TAIWAN, HONG KONG, AND INDONESIA.''\<rparr>"

section \<open>Application State Store: the mutators of \<^verbatim>\<open>App\<close>\<close>

text \<open>
  Each mutator of \<^verbatim>\<open>App\<close> hands React's \<^verbatim>\<open>setState\<close> an updater \<^verbatim>\<open>prev => ...\<close>; the
  model is that updater, applied to the previous snapshot. The two deletions first call
  \<^verbatim>\<open>window.confirm\<close> with a prompt: the user's answer is the function \<open>confirm\<close> from
  the prompt to a boolean, and a declined prompt means \<^verbatim>\<open>setState\<close> is never called.
\<close>

definition updateProject :: "string \<Rightarrow> Project \<Rightarrow> AppState \<Rightarrow> AppState" where
  "updateProject i updated prev =
     prev\<lparr>projects := map (\<lambda>p. if id_p p = i then updated else p) (projects prev)\<rparr>"

definition addProject :: "Project \<Rightarrow> AppState \<Rightarrow> AppState" where
  "addProject project prev = prev\<lparr>projects := project # projects prev\<rparr>"

definition deleteProject :: "(string \<Rightarrow> bool) \<Rightarrow> string \<Rightarrow> AppState \<Rightarrow> AppState" where
  "deleteProject confirm i prev =
     (if confirm (''CONFIRM_DELETION: '' @ i @ ''?'')
      then prev\<lparr>projects := filter (\<lambda>p. id_p p \<noteq> i) (projects prev)\<rparr>
      else prev)"

definition updateArchiveItem :: "string \<Rightarrow> ArchiveItem \<Rightarrow> AppState \<Rightarrow> AppState" where
  "updateArchiveItem i updated prev =
     prev\<lparr>archiveItems := map (\<lambda>item. if id_a item = i then updated else item) (archiveItems prev)\<rparr>"

definition addArchiveItem :: "ArchiveItem \<Rightarrow> AppState \<Rightarrow> AppState" where
  "addArchiveItem item prev = prev\<lparr>archiveItems := item # archiveItems prev\<rparr>"

definition deleteArchiveItem :: "(string \<Rightarrow> bool) \<Rightarrow> string \<Rightarrow> AppState \<Rightarrow> AppState" where
  "deleteArchiveItem confirm i prev =
     (if confirm ''CONFIRM_DELETION_OF_LOG_RECORD?''
      then prev\<lparr>archiveItems := filter (\<lambda>item. id_a item \<noteq> i) (archiveItems prev)\<rparr>
      else prev)"

definition updateSettings :: "string \<Rightarrow> string \<Rightarrow> AppState \<Rightarrow> AppState" where
  "updateSettings siteTitle' tagline' prev = prev\<lparr>siteTitle := siteTitle', tagline := tagline'\<rparr>"

text \<open>Two users, for evaluating the deletions and the import: one accepts every prompt, one declines.\<close>

fun userAccepts :: "string \<Rightarrow> bool" where
  "userAccepts prompt = True"

fun userDeclines :: "string \<Rightarrow> bool" where
  "userDeclines prompt = False"

section \<open>JavaScript values, exceptions and the storage slot\<close>

text \<open>
  What \<^verbatim>\<open>JSON.parse\<close> can return. An object is the list of its own properties in
  insertion order. A thrown value is an \<^verbatim>\<open>Error\<close> with its \<^verbatim>\<open>name\<close>, or something that is
  not an \<^verbatim>\<open>Error\<close>.
\<close>

datatype json =
  JNull | JBool bool | JNum rat | JStr string | JArr "json list" | JObj "(string \<times> json) list"

datatype thrown = ErrorNamed string | NonError

text \<open>JavaScript's truthiness, which \<^verbatim>\<open>if (v)\<close> and \<^verbatim>\<open>a && b\<close> test.\<close>

fun truthy :: "json \<Rightarrow> bool" where
  "truthy JNull = False"
| "truthy (JBool b) = b"
| "truthy (JNum n) = (n \<noteq> 0)"
| "truthy (JStr s) = (s \<noteq> [])"
| "truthy (JArr xs) = True"
| "truthy (JObj fs) = True"

text \<open>
  Reading a property \<^verbatim>\<open>v.k\<close>, for a name \<open>k\<close> that no prototype defines: a TypeError on
  \<^verbatim>\<open>null\<close>, \<^verbatim>\<open>undefined\<close> (here \<open>None\<close>) on a primitive, on an array and on an object
  without the property.
\<close>

fun getProp :: "json \<Rightarrow> string \<Rightarrow> thrown + json option" where
  "getProp JNull k = Inl (ErrorNamed ''TypeError'')"
| "getProp (JObj fs) k = Inr (map_of fs k)"
| "getProp v k = Inr None"

fun isArray :: "json option \<Rightarrow> bool" where
  "isArray (Some (JArr xs)) = True"
| "isArray v = False"

fun truthy_opt :: "json option \<Rightarrow> bool" where
  "truthy_opt None = False"
| "truthy_opt (Some v) = truthy v"

text \<open>
  Object spread \<^verbatim>\<open>{ ...a, ...b }\<close> on property lists, in the property order of
  JavaScript: the keys that are array indices (canonical decimal numerals below
  \<^verbatim>\<open>2^32 - 1\<close>) come first, in ascending order, then the other keys in the order of their
  creation. Each property of \<open>b\<close> in turn is assigned to the copy of \<open>a\<close>: a key that is
  there keeps its place and takes the new value, a new index key goes to its place among
  the index keys, any other new key to the end.
\<close>

definition isDigit :: "char \<Rightarrow> bool" where
  "isDigit c = (48 \<le> (of_char c :: nat) \<and> (of_char c :: nat) \<le> 57)"

definition indexValue :: "string \<Rightarrow> nat" where
  "indexValue k = foldl (\<lambda>n c. 10 * n + (of_char c - 48)) 0 k"

definition isIndex :: "string \<Rightarrow> bool" where
  "isIndex k = (k \<noteq> [] \<and> list_all isDigit k \<and> (k = ''0'' \<or> hd k \<noteq> CHR ''0'')
     \<and> indexValue k < 2 ^ 32 - 1)"

fun replaceProp :: "(string \<times> json) list \<Rightarrow> string \<Rightarrow> json \<Rightarrow> (string \<times> json) list" where
  "replaceProp [] k v = []"
| "replaceProp ((k', v') # fs) k v = (if k' = k then (k, v) # fs else (k', v') # replaceProp fs k v)"

fun insertIndex :: "(string \<times> json) list \<Rightarrow> string \<Rightarrow> json \<Rightarrow> (string \<times> json) list" where
  "insertIndex [] k v = [(k, v)]"
| "insertIndex ((k', v') # fs) k v =
     (if isIndex k' \<and> indexValue k' < indexValue k
      then (k', v') # insertIndex fs k v
      else (k, v) # (k', v') # fs)"

definition assign :: "(string \<times> json) list \<Rightarrow> string \<Rightarrow> json \<Rightarrow> (string \<times> json) list" where
  "assign fs k v =
     (if map_of fs k \<noteq> None then replaceProp fs k v
      else if isIndex k then insertIndex fs k v
      else fs @ [(k, v)])"

fun spread :: "(string \<times> json) list \<Rightarrow> (string \<times> json) list \<Rightarrow> (string \<times> json) list" where
  "spread a [] = a"
| "spread a ((k, v) # b) = spread (assign a k v) b"

definition STORAGE_KEY :: string where
  "STORAGE_KEY = ''odemind_archive_v5_final''"

text \<open>
  Modelled from the spec: the storage backend is the browser's \<^verbatim>\<open>localStorage\<close>, which is
  not code of the repository. A slot holds a string under a key; "if serialized size
  exceeds the storage backend's capacity, the write fails with a quota-exceeded
  condition". The capacity \<open>quota\<close> is a parameter.
\<close>

type_synonym storage = "string \<rightharpoonup> string"

definition getItem :: "storage \<Rightarrow> string \<Rightarrow> string option" where
  "getItem st k = st k"

definition setItem :: "nat \<Rightarrow> storage \<Rightarrow> string \<Rightarrow> string \<Rightarrow> thrown + storage" where
  "setItem quota st k v =
     (if quota < length v then Inl (ErrorNamed ''QuotaExceededError'') else Inr (st(k \<mapsto> v)))"

section \<open>State Loader: the state initialiser of \<^verbatim>\<open>App\<close>\<close>

text \<open>
  The initialiser spreads the parsed document over \<^verbatim>\<open>defaultState\<close>, so what it returns is
  a JavaScript object: TypeScript's annotation \<^verbatim>\<open>AppState\<close> checks nothing at run time.
  The default dataset as such an object, property order as in the literals. The string
  that stands for a member of \<^verbatim>\<open>Category\<close> is declared in \<^verbatim>\<open>types.ts\<close> and hence a
  parameter, \<open>cv\<close>.
\<close>

fun statusJS :: "Status \<Rightarrow> json" where
  "statusJS IN_PROGRESS = JStr ''IN_PROGRESS''"
| "statusJS COMPLETED = JStr ''COMPLETED''"
| "statusJS ARCHIVED = JStr ''ARCHIVED''"

definition projectJS :: "(Category \<Rightarrow> string) \<Rightarrow> Project \<Rightarrow> json" where
  "projectJS cv p = JObj
     [(''id'', JStr (id_p p)), (''title'', JStr (title_p p)), (''category'', JStr (cv (category_p p))),
      (''date'', JStr (date_p p)), (''description'', JStr (description_p p)),
      (''imageUrls'', JArr (map JStr (imageUrls p))),
      (''client'', JStr (client p)), (''status'', statusJS (status p))]"

definition archiveItemJS :: "ArchiveItem \<Rightarrow> json" where
  "archiveItemJS a = JObj
     [(''id'', JStr (id_a a)), (''year'', JStr (year a)), (''company'', JStr (company a)),
      (''category'', JStr (category_a a)), (''project'', JStr (project_a a)),
      (''imageUrl'', JStr (imageUrl a))]"

definition serviceJS :: "Service \<Rightarrow> json" where
  "serviceJS s = JObj
     [(''id'', JStr (id_s s)), (''number'', JStr (number_s s)), (''title'', JStr (title_s s)),
      (''description'', JStr (description_s s))]"

definition appStateFields :: "(Category \<Rightarrow> string) \<Rightarrow> AppState \<Rightarrow> (string \<times> json) list" where
  "appStateFields cv s =
     [(''projects'', JArr (map (projectJS cv) (projects s))),
      (''archiveItems'', JArr (map archiveItemJS (archiveItems s))),
      (''services'', JArr (map serviceJS (services s))),
      (''siteTitle'', JStr (siteTitle s)), (''tagline'', JStr (tagline s))]"

text \<open>
  The body of the \<^verbatim>\<open>try\<close> block: \<open>Inl\<close> is an exception thrown inside it,
  \<open>Inr (Some s)\<close> the \<^verbatim>\<open>return\<close> inside it, \<open>Inr None\<close> falling through to the end of the
  block. \<^verbatim>\<open>JSON.parse\<close> is the parameter \<open>parse\<close>, which throws or returns a value.
  Only an object has a \<^verbatim>\<open>projects\<close> property, so the spread always meets an object; the
  other branch of the last case is never taken.
\<close>

definition load_try ::
  "(string \<Rightarrow> thrown + json) \<Rightarrow> (Category \<Rightarrow> string) \<Rightarrow> storage \<Rightarrow> thrown + json option" where
  "load_try parse cv st =
     (case getItem st STORAGE_KEY of
        None \<Rightarrow> Inr None
      | Some saved \<Rightarrow>
          if saved = [] then Inr None
          else (case parse saved of
                  Inl e \<Rightarrow> Inl e
                | Inr parsed \<Rightarrow>
                    if \<not> truthy parsed then Inr None
                    else (case getProp parsed ''projects'' of
                            Inl e \<Rightarrow> Inl e
                          | Inr pr \<Rightarrow>
                              if isArray pr
                              then (case parsed of
                                      JObj fs \<Rightarrow> Inr (Some (JObj (spread (appStateFields cv defaultState) fs)))
                                    | _ \<Rightarrow> Inr (Some (JObj (appStateFields cv defaultState))))
                              else Inr None)))"

text \<open>
  The initialiser: the \<^verbatim>\<open>catch\<close> clause logs a warning to the console and falls through
  to \<^verbatim>\<open>return defaultState\<close>. The result is the state and the console lines written;
  \<open>Inl\<close> would be an exception that leaves the initialiser.
\<close>

definition load ::
  "(string \<Rightarrow> thrown + json) \<Rightarrow> (Category \<Rightarrow> string) \<Rightarrow> storage \<Rightarrow> thrown + (json \<times> string list)" where
  "load parse cv st =
     (case load_try parse cv st of
        Inl e \<Rightarrow> Inr (JObj (appStateFields cv defaultState), [''SYSTEM: FAILED_TO_LOAD_PERSISTENT_STORAGE''])
      | Inr (Some s) \<Rightarrow> Inr (s, [])
      | Inr None \<Rightarrow> Inr (JObj (appStateFields cv defaultState), []))"

text \<open>
  The shape check in the words of the specification: the value has a \<^verbatim>\<open>projects\<close> field
  and that field is a sequence.
\<close>

definition projects_is_sequence :: "json \<Rightarrow> bool" where
  "projects_is_sequence v =
     (case v of
        JObj fs \<Rightarrow> (case map_of fs ''projects'' of Some (JArr xs) \<Rightarrow> True | _ \<Rightarrow> False)
      | _ \<Rightarrow> False)"

text \<open>
  A stand-in for \<^verbatim>\<open>JSON.parse\<close> on a few documents, for evaluating the loader: it knows
  \<^verbatim>\<open>null\<close>, \<^verbatim>\<open>0\<close>, \<^verbatim>\<open>[1]\<close>, \<^verbatim>\<open>{}\<close> and throws a SyntaxError on everything else, such
  as the truncated document \<^verbatim>\<open>{\<close>. \<open>sampleCategory\<close> stands for the strings of the
  \<^verbatim>\<open>Category\<close> members.
\<close>

definition sampleParse :: "string \<Rightarrow> thrown + json" where
  "sampleParse s =
     (if s = ''null'' then Inr JNull
      else if s = ''0'' then Inr (JNum 0)
      else if s = ''[1]'' then Inr (JArr [JNum 1])
      else if s = ''{}'' then Inr (JObj [])
      else Inl (ErrorNamed ''SyntaxError''))"

fun sampleCategory :: "Category \<Rightarrow> string" where
  "sampleCategory BRANDING = ''BRANDING''"
| "sampleCategory SPACE = ''SPACE''"

section \<open>Persistence Synchronizer: the storage effect of \<^verbatim>\<open>App\<close>\<close>

text \<open>
  The part of the component that the effect reads and writes. Time is in milliseconds.
  \<open>timers\<close> are the browser's pending timeouts, in the order of their registration: each
  has the id that \<^verbatim>\<open>setTimeout\<close> returned, the time at which it fires and the \<^verbatim>\<open>state\<close>
  that its callback closed over; \<open>nextTimer\<close> is the id that the next \<^verbatim>\<open>setTimeout\<close>
  returns. Every run of the effect registers a timeout of its own, and nothing but
  \<^verbatim>\<open>clearTimeout\<close> takes a pending one away before it fires. \<open>cleanup\<close> is the id which
  the cleanup function returned by the last run of the effect closed over (\<open>None\<close> before
  the effect has run). \<open>alerts\<close> are the messages shown with \<^verbatim>\<open>alert\<close>, and
  \<open>setItemCalls\<close> records every call of \<^verbatim>\<open>localStorage.setItem\<close> made by a callback
  (time, key, value), whether the backend accepted it or not.
\<close>

type_synonym timeout = "nat \<times> nat \<times> AppState"

record App =
  state :: AppState
  isSyncing :: bool
  timers :: "timeout list"
  nextTimer :: nat
  cleanup :: "nat option"
  localStorage :: storage
  alerts :: "string list"
  setItemCalls :: "(nat \<times> string \<times> string) list"

text \<open>
  The browser's \<^verbatim>\<open>setTimeout\<close>, which registers a timeout under a fresh id, and
  \<^verbatim>\<open>clearTimeout\<close>, which removes the pending timeout of an id, if there still is one.
\<close>

definition setTimeout :: "nat \<Rightarrow> AppState \<Rightarrow> App \<Rightarrow> App" where
  "setTimeout due snapshot app =
     app\<lparr>timers := timers app @ [(nextTimer app, due, snapshot)], nextTimer := Suc (nextTimer app)\<rparr>"

definition clearTimeout :: "nat \<Rightarrow> App \<Rightarrow> App" where
  "clearTimeout i app = app\<lparr>timers := filter (\<lambda>(j, due, snapshot). j \<noteq> i) (timers app)\<rparr>"

text \<open>
  The effect body, run at time \<open>now\<close> after a render with a new \<^verbatim>\<open>state\<close>:
  \<^verbatim>\<open>setIsSyncing(true)\<close>, \<^verbatim>\<open>const timer = setTimeout(..., 500)\<close> and the return of the
  cleanup \<^verbatim>\<open>() => clearTimeout(timer)\<close>, which is kept for later.
\<close>

definition effect :: "nat \<Rightarrow> App \<Rightarrow> App" where
  "effect now app =
     (setTimeout (now + 500) (state app) (app\<lparr>isSyncing := True\<rparr>))\<lparr>cleanup := Some (nextTimer app)\<rparr>"

text \<open>Running the cleanup that the previous run of the effect returned.\<close>

definition runCleanup :: "App \<Rightarrow> App" where
  "runCleanup app = (case cleanup app of None \<Rightarrow> app | Some timer \<Rightarrow> clearTimeout timer app)"

text \<open>
  The timeout's callback, run at time \<open>now\<close> with the snapshot it closed over.
  \<^verbatim>\<open>JSON.stringify\<close> is the parameter \<open>stringify\<close>. The alert's text continues after the
  first line with a sentence in Korean (the images are too many or too large: delete
  projects or shrink images), which is left out here.
\<close>

definition timeoutCallback :: "(AppState \<Rightarrow> string) \<Rightarrow> nat \<Rightarrow> nat \<Rightarrow> AppState \<Rightarrow> App \<Rightarrow> App" where
  "timeoutCallback stringify quota now snapshot app0 =
     (let v = stringify snapshot;
          app = app0\<lparr>setItemCalls := setItemCalls app0 @ [(now, STORAGE_KEY, v)]\<rparr>
      in case setItem quota (localStorage app) STORAGE_KEY v of
           Inr st \<Rightarrow> app\<lparr>localStorage := st, isSyncing := False\<rparr>
         | Inl e \<Rightarrow>
             if e = ErrorNamed ''QuotaExceededError''
             then app\<lparr>isSyncing := False, alerts := alerts app @ [''CRITICAL_ERROR: STORAGE_LIMIT_EXCEEDED.'']\<rparr>
             else app\<lparr>isSyncing := False\<rparr>)"

text \<open>
  A call of \<^verbatim>\<open>setState\<close> with an updater at time \<open>now\<close>, and the render it causes: React
  runs the cleanup of the previous effect and then the effect for the new state. Every
  updater of \<^verbatim>\<open>App\<close> builds a new object, so the dependency \<^verbatim>\<open>[state]\<close> has changed each
  time.
\<close>

definition setState :: "(AppState \<Rightarrow> AppState) \<Rightarrow> nat \<Rightarrow> App \<Rightarrow> App" where
  "setState f now app = effect now (runCleanup (app\<lparr>state := f (state app)\<rparr>))"

text \<open>
  Letting time pass up to \<open>t\<close>: every pending timeout whose time has come fires, at its
  own time, the earlier first and those of one time in the order of their registration.
  A fired timeout is no longer pending. The callback registers and clears no timeout and
  leaves \<^verbatim>\<open>state\<close> alone, so the timeouts that fire are those due at the outset. A
  timeout due at the very moment of a \<^verbatim>\<open>setState\<close> is taken to fire first.
\<close>

definition dueTimeouts :: "nat \<Rightarrow> App \<Rightarrow> timeout list" where
  "dueTimeouts t app =
     sort_key (\<lambda>(i, due, snapshot). due) (filter (\<lambda>(i, due, snapshot). due \<le> t) (timers app))"

definition fire :: "(AppState \<Rightarrow> string) \<Rightarrow> nat \<Rightarrow> timeout \<Rightarrow> App \<Rightarrow> App" where
  "fire stringify quota tm app =
     (case tm of (i, due, snapshot) \<Rightarrow>
        timeoutCallback stringify quota due snapshot
          (app\<lparr>timers := filter (\<lambda>(j, due', snapshot'). j \<noteq> i) (timers app)\<rparr>))"

definition advance :: "(AppState \<Rightarrow> string) \<Rightarrow> nat \<Rightarrow> nat \<Rightarrow> App \<Rightarrow> App" where
  "advance stringify quota t app = fold (fire stringify quota) (dueTimeouts t app) app"

text \<open>
  A timeline: calls of \<^verbatim>\<open>setState\<close> at their times, in order, then time passes up to
  \<open>T\<close>.
\<close>

fun run :: "(AppState \<Rightarrow> string) \<Rightarrow> nat \<Rightarrow> nat \<Rightarrow> (nat \<times> (AppState \<Rightarrow> AppState)) list \<Rightarrow> App \<Rightarrow> App" where
  "run stringify quota T [] app = advance stringify quota T app"
| "run stringify quota T ((t, f) # es) app =
     run stringify quota T es (setState f t (advance stringify quota t app))"

text \<open>
  The handlers that \<^verbatim>\<open>App\<close> passes to the admin view, as the user's actions. Each calls
  \<^verbatim>\<open>setState\<close> with its updater, the two deletions only if the user accepts the prompt: a
  declined deletion calls nothing, causes no render and leaves the effect alone.
  \<open>updaterOf\<close> is the updater that an action hands to \<^verbatim>\<open>setState\<close>, if it does;
  \<open>setStateCalls\<close> are the calls that a sequence of timed actions makes.
\<close>

datatype action =
  UpdateProject string Project
| AddProject Project
| DeleteProject string
| UpdateArchiveItem string ArchiveItem
| AddArchiveItem ArchiveItem
| DeleteArchiveItem string
| UpdateSettings string string

fun updaterOf :: "(string \<Rightarrow> bool) \<Rightarrow> action \<Rightarrow> (AppState \<Rightarrow> AppState) option" where
  "updaterOf confirm (UpdateProject i updated) = Some (updateProject i updated)"
| "updaterOf confirm (AddProject project) = Some (addProject project)"
| "updaterOf confirm (DeleteProject i) =
     (if confirm (''CONFIRM_DELETION: '' @ i @ ''?'') then Some (deleteProject confirm i) else None)"
| "updaterOf confirm (UpdateArchiveItem i updated) = Some (updateArchiveItem i updated)"
| "updaterOf confirm (AddArchiveItem item) = Some (addArchiveItem item)"
| "updaterOf confirm (DeleteArchiveItem i) =
     (if confirm ''CONFIRM_DELETION_OF_LOG_RECORD?'' then Some (deleteArchiveItem confirm i) else None)"
| "updaterOf confirm (UpdateSettings siteTitle' tagline') = Some (updateSettings siteTitle' tagline')"

fun setStateCalls ::
  "(string \<Rightarrow> bool) \<Rightarrow> (nat \<times> action) list \<Rightarrow> (nat \<times> (AppState \<Rightarrow> AppState)) list" where
  "setStateCalls confirm [] = []"
| "setStateCalls confirm ((t, a) # as) =
     (case updaterOf confirm a of
        None \<Rightarrow> setStateCalls confirm as
      | Some f \<Rightarrow> (t, f) # setStateCalls confirm as)"

definition runActions ::
  "(AppState \<Rightarrow> string) \<Rightarrow> nat \<Rightarrow> (string \<Rightarrow> bool) \<Rightarrow> nat \<Rightarrow> (nat \<times> action) list \<Rightarrow> App \<Rightarrow> App" where
  "runActions stringify quota confirm T actions app =
     run stringify quota T (setStateCalls confirm actions) app"

text \<open>
  A burst after time \<open>t\<close>: each call comes less than the debounce window after the one
  before it. \<open>lastTime\<close> is the time of the last call and \<open>finalState\<close> the state after
  all of them.
\<close>

fun burst :: "nat \<Rightarrow> (nat \<times> (AppState \<Rightarrow> AppState)) list \<Rightarrow> bool" where
  "burst t [] = True"
| "burst t ((t', f) # es) = (t \<le> t' \<and> t' < t + 500 \<and> burst t' es)"

fun lastTime :: "nat \<Rightarrow> (nat \<times> (AppState \<Rightarrow> AppState)) list \<Rightarrow> nat" where
  "lastTime t [] = t"
| "lastTime t ((t', f) # es) = lastTime t' es"

fun finalState :: "(nat \<times> (AppState \<Rightarrow> AppState)) list \<Rightarrow> AppState \<Rightarrow> AppState" where
  "finalState [] s = s"
| "finalState ((t, f) # es) s = finalState es (f s)"

text \<open>
  The component before its first effect has run, and just after it has: React runs the
  effect once after the first render.
\<close>

definition idle :: "AppState \<Rightarrow> storage \<Rightarrow> App" where
  "idle s st = \<lparr>state = s, isSyncing = False, timers = [], nextTimer = 0, cleanup = None,
     localStorage = st, alerts = [], setItemCalls = []\<rparr>"

definition mount :: "nat \<Rightarrow> AppState \<Rightarrow> storage \<Rightarrow> App" where
  "mount now s st = effect now (idle s st)"

text \<open>
  The pending timeouts are owned by the cleanup: none is pending, or just the one that
  the kept cleanup clears. It holds at the start and after every step of a timeline.
\<close>

definition pendingOwned :: "App \<Rightarrow> bool" where
  "pendingOwned app =
     (case timers app of
        [] \<Rightarrow> True
      | [(i, due, snapshot)] \<Rightarrow> cleanup app = Some i
      | _ \<Rightarrow> False)"

text \<open>
  A stand-in for \<^verbatim>\<open>JSON.stringify\<close>, for evaluating the synchronizer: it writes the two
  settings only.
\<close>

definition sampleStringify :: "AppState \<Rightarrow> string" where
  "sampleStringify s = siteTitle s @ '':'' @ tagline s"

section \<open>Image Codec: \<^verbatim>\<open>compressImage\<close>\<close>

text \<open>
  The repository holds two versions of the admin view, each with its own
  \<^verbatim>\<open>compressImage\<close>, file handlers and import: \<^verbatim>\<open>src/unnamed/part_001\<close>, whose import
  writes the storage key of \<^verbatim>\<open>App\<close> (suffix \<open>part001\<close> below), and
  \<^verbatim>\<open>src/components/AdminView.tsx\<close> (suffix \<open>AdminView\<close> below). Both are modelled.

  A promise either resolves with a value or stays pending for ever, when nothing ever
  calls its \<^verbatim>\<open>resolve\<close>.
\<close>

datatype 'a promise = Resolved 'a | Pending

text \<open>
  The browser's image decoder and canvas are outside the repository. \<open>decode\<close> gives the
  width and height with which \<^verbatim>\<open>onload\<close> fires for a source string, or \<open>None\<close> when the
  image fails to load and \<^verbatim>\<open>onerror\<close> fires instead. \<open>getContext2d\<close> tells whether the
  canvas hands out a 2d context, and \<open>toDataURL\<close> encodes a canvas at a quality. A canvas
  is its size and what was painted on it: the source drawn over a white fill, or nothing.
\<close>

record Canvas =
  width :: nat
  height :: nat
  painted :: "string option"

record Browser =
  decode :: "string \<Rightarrow> (nat \<times> nat) option"
  getContext2d :: bool
  toDataURL :: "Canvas \<Rightarrow> rat \<Rightarrow> string"

text \<open>\<^verbatim>\<open>Math.round(a / b)\<close> for natural numbers \<open>a\<close> and \<open>b > 0\<close>: halves round up.\<close>

definition roundDiv :: "nat \<Rightarrow> nat \<Rightarrow> nat" where
  "roundDiv a b = (2 * a + b) div (2 * b)"

text \<open>The \<^verbatim>\<open>onload\<close> handler, the same in both versions: what it resolves the promise with.\<close>

definition onload :: "Browser \<Rightarrow> string \<Rightarrow> nat \<Rightarrow> rat \<Rightarrow> nat \<times> nat \<Rightarrow> string" where
  "onload br base64Str maxWidth quality dims =
     (let w0 = fst dims; h0 = snd dims;
          h = (if maxWidth < w0 then roundDiv (h0 * maxWidth) w0 else h0);
          w = (if maxWidth < w0 then maxWidth else w0);
          canvas = \<lparr>width = w, height = h,
                    painted = (if getContext2d br then Some base64Str else None)\<rparr>
      in toDataURL br canvas quality)"

text \<open>
  The version of \<^verbatim>\<open>part_001\<close> (defaults: \<^verbatim>\<open>maxWidth = 600\<close>, \<^verbatim>\<open>quality = 0.4\<close>) sets
  \<^verbatim>\<open>img.onerror = () => resolve('')\<close>.
\<close>

definition compressImage_part001 :: "Browser \<Rightarrow> string \<Rightarrow> nat \<Rightarrow> rat \<Rightarrow> string promise" where
  "compressImage_part001 br base64Str maxWidth quality =
     (case decode br base64Str of
        Some dims \<Rightarrow> Resolved (onload br base64Str maxWidth quality dims)
      | None \<Rightarrow> Resolved [])"

text \<open>
  The version of \<^verbatim>\<open>src/components/AdminView.tsx\<close> (defaults: \<^verbatim>\<open>maxWidth = 1000\<close>,
  \<^verbatim>\<open>quality = 0.6\<close>) sets no \<^verbatim>\<open>onerror\<close> handler: when the image fails to load, nothing
  resolves the promise.
\<close>

definition compressImage_AdminView :: "Browser \<Rightarrow> string \<Rightarrow> nat \<Rightarrow> rat \<Rightarrow> string promise" where
  "compressImage_AdminView br base64Str maxWidth quality =
     (case decode br base64Str of
        Some dims \<Rightarrow> Resolved (onload br base64Str maxWidth quality dims)
      | None \<Rightarrow> Pending)"

section \<open>Media Ingestion Queue: \<^verbatim>\<open>ProjectForm.handleFileChange\<close>\<close>

text \<open>
  A selected file: its size in bytes and the data URL that \<^verbatim>\<open>FileReader.readAsDataURL\<close>
  delivers at \<^verbatim>\<open>loadend\<close> (the reader's promise always resolves). The loop's local
  state is \<open>newUrls\<close>; the model also records the warnings shown with \<^verbatim>\<open>alert\<close>, the
  files read and the strings handed to \<^verbatim>\<open>compressImage\<close>, each in order.
\<close>

record File =
  size_f :: nat
  dataURL :: string

record Ingestion =
  newUrls :: "string list"
  warnings :: "string list"
  filesRead :: "File list"
  decodes :: "string list"

definition noIngestion :: Ingestion where
  "noIngestion = \<lparr>newUrls = [], warnings = [], filesRead = [], decodes = []\<rparr>"

text \<open>The \<^verbatim>\<open>for\<close> loop of \<^verbatim>\<open>part_001\<close>, over the files still to process.\<close>

fun loop_part001 :: "Browser \<Rightarrow> File list \<Rightarrow> Ingestion \<Rightarrow> Ingestion promise" where
  "loop_part001 br [] acc = Resolved acc"
| "loop_part001 br (file # files) acc =
     (if 10 * 1024 * 1024 < size_f file
      then loop_part001 br files (acc\<lparr>warnings := warnings acc @ [''SKIP: FILE_TOO_LARGE (>10MB)'']\<rparr>)
      else (let base64 = dataURL file;
                acc1 = acc\<lparr>filesRead := filesRead acc @ [file], decodes := decodes acc @ [base64]\<rparr>
            in case compressImage_part001 br base64 600 (2 / 5) of
                 Pending \<Rightarrow> Pending
               | Resolved compressed \<Rightarrow>
                   if compressed \<noteq> []
                   then loop_part001 br files (acc1\<lparr>newUrls := newUrls acc1 @ [compressed]\<rparr>)
                   else loop_part001 br files acc1))"

text \<open>
  The loop of \<^verbatim>\<open>src/components/AdminView.tsx\<close>: no size test, and whatever the codec
  resolves with is pushed.
\<close>

fun loop_AdminView :: "Browser \<Rightarrow> File list \<Rightarrow> Ingestion \<Rightarrow> Ingestion promise" where
  "loop_AdminView br [] acc = Resolved acc"
| "loop_AdminView br (file # files) acc =
     (let base64 = dataURL file;
          acc1 = acc\<lparr>filesRead := filesRead acc @ [file], decodes := decodes acc @ [base64]\<rparr>
      in case compressImage_AdminView br base64 1000 (3 / 5) of
           Pending \<Rightarrow> Pending
         | Resolved compressed \<Rightarrow> loop_AdminView br files (acc1\<lparr>newUrls := newUrls acc1 @ [compressed]\<rparr>))"

text \<open>
  The form: the image list of \<^verbatim>\<open>formData\<close> (which may be undefined), the processing flag
  and the alerts shown so far. The handler returns at once when there is no file list;
  otherwise it resolves, once the loop has, with the new urls appended to the form's.
\<close>

record ProjectForm =
  formImageUrls :: "string list option"
  isProcessing :: bool
  alertsShown :: "string list"

definition finishBatch :: "ProjectForm \<Rightarrow> Ingestion \<Rightarrow> ProjectForm" where
  "finishBatch form r =
     form\<lparr>formImageUrls := Some ((case formImageUrls form of None \<Rightarrow> [] | Some urls \<Rightarrow> urls) @ newUrls r),
          isProcessing := False,
          alertsShown := alertsShown form @ warnings r\<rparr>"

definition handleFileChange_part001 :: "Browser \<Rightarrow> File list option \<Rightarrow> ProjectForm \<Rightarrow> ProjectForm promise" where
  "handleFileChange_part001 br files form =
     (case files of
        None \<Rightarrow> Resolved form
      | Some fs \<Rightarrow>
          (case loop_part001 br fs noIngestion of
             Pending \<Rightarrow> Pending
           | Resolved r \<Rightarrow> Resolved (finishBatch form r)))"

definition handleFileChange_AdminView :: "Browser \<Rightarrow> File list option \<Rightarrow> ProjectForm \<Rightarrow> ProjectForm promise" where
  "handleFileChange_AdminView br files form =
     (case files of
        None \<Rightarrow> Resolved form
      | Some fs \<Rightarrow>
          (case loop_AdminView br fs noIngestion of
             Pending \<Rightarrow> Pending
           | Resolved r \<Rightarrow> Resolved (finishBatch form r)))"

text \<open>
  A browser for evaluating the pipeline: it decodes two source strings, a wide image and
  a small one, and fails on every other; its encoder tags what was painted.
\<close>

definition sampleBrowser :: Browser where
  "sampleBrowser =
     \<lparr>decode = (\<lambda>s. if s = ''data:image/png;base64,WIDE'' then Some (1200, 800)
                     else if s = ''data:image/png;base64,SMALL'' then Some (400, 300)
                     else None),
      getContext2d = True,
      toDataURL = (\<lambda>c q. ''data:image/jpeg;base64,'' @ (case painted c of None \<Rightarrow> [] | Some s \<Rightarrow> drop 22 s))\<rparr>"

definition wideFile :: File where
  "wideFile = \<lparr>size_f = 2000000, dataURL = ''data:image/png;base64,WIDE''\<rparr>"

definition smallFile :: File where
  "smallFile = \<lparr>size_f = 50000, dataURL = ''data:image/png;base64,SMALL''\<rparr>"

definition brokenFile :: File where
  "brokenFile = \<lparr>size_f = 1000, dataURL = ''data:text/plain;base64,AAAA''\<rparr>"

definition hugeFile :: File where
  "hugeFile = \<lparr>size_f = 10 * 1024 * 1024 + 1, dataURL = ''data:image/png;base64,WIDE''\<rparr>"

definition emptyForm :: ProjectForm where
  "emptyForm = \<lparr>formImageUrls = Some [], isProcessing = False, alertsShown = []\<rparr>"

text \<open>
  What the codec of \<^verbatim>\<open>part_001\<close> resolves with for a file, at the presets of the
  project form; used to state what the queue returns.
\<close>

definition encoded_part001 :: "Browser \<Rightarrow> File \<Rightarrow> string" where
  "encoded_part001 br file =
     (case decode br (dataURL file) of
        Some dims \<Rightarrow> onload br (dataURL file) 600 (2 / 5) dims
      | None \<Rightarrow> [])"

definition encoded_AdminView :: "Browser \<Rightarrow> File \<Rightarrow> string" where
  "encoded_AdminView br file =
     (case decode br (dataURL file) of
        Some dims \<Rightarrow> onload br (dataURL file) 1000 (3 / 5) dims
      | None \<Rightarrow> [])"

definition accepted :: "File \<Rightarrow> bool" where
  "accepted file = (size_f file \<le> 10 * 1024 * 1024)"

section \<open>Import: \<^verbatim>\<open>AdminView.handleImport\<close>\<close>

text \<open>
  The outcome of an import: the storage afterwards, the alerts shown and whether the page
  was reloaded. \<open>file\<close> is the text that \<^verbatim>\<open>FileReader.readAsText\<close> delivers to \<^verbatim>\<open>onload\<close>
  for the chosen file, \<open>None\<close> when no file was chosen (the handler then returns at
  once). \<^verbatim>\<open>JSON.parse\<close> and \<^verbatim>\<open>JSON.stringify\<close> are the parameters \<open>parse\<close> and
  \<open>stringify\<close>, \<open>confirm\<close> is the user's answer to a prompt. Every exception inside the
  \<^verbatim>\<open>try\<close> block ends in the alert of the \<^verbatim>\<open>catch\<close> clause.
\<close>

record ImportOutcome =
  storageAfter :: storage
  importAlerts :: "string list"
  reloaded :: bool

text \<open>The version of \<^verbatim>\<open>part_001\<close>.\<close>

definition handleImport_part001 ::
  "(string \<Rightarrow> thrown + json) \<Rightarrow> (json \<Rightarrow> string) \<Rightarrow> (string \<Rightarrow> bool) \<Rightarrow> nat
     \<Rightarrow> string option \<Rightarrow> storage \<Rightarrow> ImportOutcome" where
  "handleImport_part001 parse stringify confirm quota file st =
     (let unchanged = \<lparr>storageAfter = st, importAlerts = [], reloaded = False\<rparr>;
          caught = \<lparr>storageAfter = st, importAlerts = [''ERROR: INVALID_DATA_STRUCTURE''], reloaded = False\<rparr>
      in case file of
           None \<Rightarrow> unchanged
         | Some text \<Rightarrow>
             (case parse text of
                Inl e \<Rightarrow> caught
              | Inr json \<Rightarrow>
                  (case getProp json ''projects'' of
                     Inl e \<Rightarrow> caught
                   | Inr projectsField \<Rightarrow>
                       if truthy_opt projectsField
                       then (if confirm ''OVERWRITE CURRENT DATABASE?''
                             then (case setItem quota st ''odemind_archive_v5_final'' (stringify json) of
                                     Inl e \<Rightarrow> caught
                                   | Inr st' \<Rightarrow> \<lparr>storageAfter = st', importAlerts = [], reloaded = True\<rparr>)
                             else unchanged)
                       else unchanged)))"

text \<open>The version of \<^verbatim>\<open>src/components/AdminView.tsx\<close>.\<close>

definition handleImport_AdminView ::
  "(string \<Rightarrow> thrown + json) \<Rightarrow> (json \<Rightarrow> string) \<Rightarrow> (string \<Rightarrow> bool) \<Rightarrow> nat
     \<Rightarrow> string option \<Rightarrow> storage \<Rightarrow> ImportOutcome" where
  "handleImport_AdminView parse stringify confirm quota file st =
     (let unchanged = \<lparr>storageAfter = st, importAlerts = [], reloaded = False\<rparr>;
          caught = \<lparr>storageAfter = st, importAlerts = [''ERROR: INVALID_JSON_STRUCTURE''], reloaded = False\<rparr>
      in case file of
           None \<Rightarrow> unchanged
         | Some text \<Rightarrow>
             (case parse text of
                Inl e \<Rightarrow> caught
              | Inr json \<Rightarrow>
                  (case getProp json ''projects'' of
                     Inl e \<Rightarrow> caught
                   | Inr projectsField \<Rightarrow>
                       if truthy_opt projectsField
                       then (case getProp json ''archiveItems'' of
                               Inl e \<Rightarrow> caught
                             | Inr archiveField \<Rightarrow>
                                 if truthy_opt archiveField
                                 then (if confirm ''WARNING: THIS_WILL_OVERWRITE_ALL_CURRENT_DATA. PROCEED?''
                                       then (case setItem quota st ''odemind_archive_v4_prod'' (stringify json) of
                                               Inl e \<Rightarrow> caught
                                             | Inr st' \<Rightarrow> \<lparr>storageAfter = st', importAlerts = [], reloaded = True\<rparr>)
                                       else unchanged)
                                 else unchanged)
                       else unchanged)))"

text \<open>
  Two documents for evaluating the import, with a parser and a serialiser that know
  them: one with empty \<^verbatim>\<open>projects\<close> and \<^verbatim>\<open>archiveItems\<close>, one with \<^verbatim>\<open>projects\<close> only.
\<close>

definition fullDoc :: json where
  "fullDoc = JObj [(''projects'', JArr []), (''archiveItems'', JArr [])]"

definition projectsDoc :: json where
  "projectsDoc = JObj [(''projects'', JArr [])]"

definition fullText :: string where
  \<open>fullText = ''{"projects":[],"archiveItems":[]}''\<close>

definition projectsText :: string where
  \<open>projectsText = ''{"projects":[]}''\<close>

definition docParse :: "string \<Rightarrow> thrown + json" where
  "docParse s =
     (if s = fullText then Inr fullDoc
      else if s = projectsText then Inr projectsDoc
      else Inl (ErrorNamed ''SyntaxError''))"

definition docStringify :: "json \<Rightarrow> string" where
  "docStringify j = (if j = fullDoc then fullText else if j = projectsDoc then projectsText else ''null'')"

section \<open>Properties of the state store\<close>

lemma filter_fresh_id: "i \<notin> set (map id_p ps) \<Longrightarrow> filter (\<lambda>p. id_p p \<noteq> i) ps = ps"
  by (induction ps) auto

text \<open>
  Claim C8, as the code has it. \<^verbatim>\<open>deleteProject\<close> asks for a confirmation first. When the
  user accepts the prompt and no project of \<open>s\<close> carries the id of \<open>p\<close>, adding \<open>p\<close> puts
  it first in the collection and deleting its id afterwards gives back the projects of
  \<open>s\<close> (indeed the whole state \<open>s\<close>).
\<close>

theorem add_then_delete_identity:
  assumes "confirm (''CONFIRM_DELETION: '' @ id_p p @ ''?'')"
    and "id_p p \<notin> set (map id_p (projects s))"
  shows "projects (addProject p s) = p # projects s
       \<and> projects (deleteProject confirm (id_p p) (addProject p s)) = projects s
       \<and> deleteProject confirm (id_p p) (addProject p s) = s"
  using assms by (simp add: addProject_def deleteProject_def filter_fresh_id)

theorem add_then_delete_identity_witness:
  "userAccepts (''CONFIRM_DELETION: '' @ id_p (hd INITIAL_PROJECTS) @ ''?'')
   \<and> id_p (hd INITIAL_PROJECTS) \<notin> set (map id_p (tl INITIAL_PROJECTS))
   \<and> projects (deleteProject userAccepts (id_p (hd INITIAL_PROJECTS))
        (addProject (hd INITIAL_PROJECTS) (defaultState\<lparr>projects := tl INITIAL_PROJECTS\<rparr>)))
     = tl INITIAL_PROJECTS"
  using add_then_delete_identity [of userAccepts "hd INITIAL_PROJECTS"
      "defaultState\<lparr>projects := tl INITIAL_PROJECTS\<rparr>"]
  by (simp add: INITIAL_PROJECTS_def)

text \<open>
  The claim as the specification words it has no condition on the confirmation. With the
  prompt declined the added project stays: here on the default dataset, to which the
  first built-in project is added once more under a fresh id.
\<close>

theorem add_then_delete_declined_counterexample:
  "''NEW'' \<notin> set (map id_p (projects defaultState))
   \<and> projects (deleteProject userDeclines ''NEW''
        (addProject ((hd INITIAL_PROJECTS)\<lparr>id_p := ''NEW''\<rparr>) defaultState))
     \<noteq> projects defaultState"
  by (simp add: deleteProject_def addProject_def defaultState_def INITIAL_PROJECTS_def)

text \<open>
  Claim C9: the update replaces every element whose id matches. The collection keeps its
  length, each position whose element carries the id holds the updated value afterwards,
  every other position is untouched, so with \<open>n\<close> carriers of the id the result holds
  the updated value at all \<open>n\<close> of their positions. The same for archive items.
\<close>

theorem update_overwrites_all_matches:
  "length (projects (updateProject i u s)) = length (projects s)
   \<and> (\<forall>k < length (projects s).
        projects (updateProject i u s) ! k = (if id_p (projects s ! k) = i then u else projects s ! k))
   \<and> length (archiveItems (updateArchiveItem j v s)) = length (archiveItems s)
   \<and> (\<forall>k < length (archiveItems s).
        archiveItems (updateArchiveItem j v s) ! k
          = (if id_a (archiveItems s ! k) = j then v else archiveItems s ! k))"
  by (simp add: updateProject_def updateArchiveItem_def)

text \<open>
  A state whose first two projects share the id \<open>DUP\<close>, for the duplicate-id case.
\<close>

theorem update_overwrites_all_matches_witness:
  "length (projects (updateProject ''DUP'' (hd INITIAL_PROJECTS)
      (defaultState\<lparr>projects := map (\<lambda>p. p\<lparr>id_p := ''DUP''\<rparr>) INITIAL_PROJECTS @ tl INITIAL_PROJECTS\<rparr>))) = 3
   \<and> projects (updateProject ''DUP'' (hd INITIAL_PROJECTS)
      (defaultState\<lparr>projects := map (\<lambda>p. p\<lparr>id_p := ''DUP''\<rparr>) INITIAL_PROJECTS @ tl INITIAL_PROJECTS\<rparr>)) ! 0
     = hd INITIAL_PROJECTS
   \<and> projects (updateProject ''DUP'' (hd INITIAL_PROJECTS)
      (defaultState\<lparr>projects := map (\<lambda>p. p\<lparr>id_p := ''DUP''\<rparr>) INITIAL_PROJECTS @ tl INITIAL_PROJECTS\<rparr>)) ! 1
     = hd INITIAL_PROJECTS
   \<and> projects (updateProject ''DUP'' (hd INITIAL_PROJECTS)
      (defaultState\<lparr>projects := map (\<lambda>p. p\<lparr>id_p := ''DUP''\<rparr>) INITIAL_PROJECTS @ tl INITIAL_PROJECTS\<rparr>)) ! 2
     = hd (tl INITIAL_PROJECTS)"
  using update_overwrites_all_matches [of "''DUP''" "hd INITIAL_PROJECTS"
      "defaultState\<lparr>projects := map (\<lambda>p. p\<lparr>id_p := ''DUP''\<rparr>) INITIAL_PROJECTS @ tl INITIAL_PROJECTS\<rparr>"]
  by (simp add: INITIAL_PROJECTS_def)

text \<open>
  Claim C10: both deletions ask for a confirmation before they touch the state. For every
  state and id, a declined prompt leaves the state as it was; an accepted one removes
  every element carrying the id.
\<close>

theorem delete_needs_confirmation:
  "(\<not> confirm (''CONFIRM_DELETION: '' @ i @ ''?'') \<longrightarrow> deleteProject confirm i s = s)
   \<and> (\<not> confirm ''CONFIRM_DELETION_OF_LOG_RECORD?'' \<longrightarrow> deleteArchiveItem confirm i s = s)
   \<and> (confirm (''CONFIRM_DELETION: '' @ i @ ''?'') \<longrightarrow>
        projects (deleteProject confirm i s) = filter (\<lambda>p. id_p p \<noteq> i) (projects s))
   \<and> (confirm ''CONFIRM_DELETION_OF_LOG_RECORD?'' \<longrightarrow>
        archiveItems (deleteArchiveItem confirm i s) = filter (\<lambda>item. id_a item \<noteq> i) (archiveItems s))"
  by (simp add: deleteProject_def deleteArchiveItem_def)

theorem delete_needs_confirmation_witness:
  "deleteProject userDeclines ''ODM-PRJ-2004-001'' defaultState = defaultState
   \<and> deleteArchiveItem userDeclines ''1'' defaultState = defaultState
   \<and> projects (deleteProject userAccepts ''ODM-PRJ-2004-001'' defaultState) = tl INITIAL_PROJECTS
   \<and> archiveItems (deleteArchiveItem userAccepts ''1'' defaultState) = tl INITIAL_ARCHIVE"
  using delete_needs_confirmation [of userDeclines "''ODM-PRJ-2004-001''" defaultState]
    delete_needs_confirmation [of userDeclines "''1''" defaultState]
    delete_needs_confirmation [of userAccepts "''ODM-PRJ-2004-001''" defaultState]
    delete_needs_confirmation [of userAccepts "''1''" defaultState]
  by (simp add: defaultState_def INITIAL_PROJECTS_def INITIAL_ARCHIVE_def)

section \<open>Properties of the state loader\<close>

lemma shape_check_is_spec:
  "(truthy v \<and> (case getProp v ''projects'' of Inl e \<Rightarrow> False | Inr pr \<Rightarrow> isArray pr))
     = projects_is_sequence v"
  by (cases v) (auto simp: projects_is_sequence_def split: option.splits json.splits)

lemma load_try_no_shape:
  "getItem st STORAGE_KEY = Some saved \<Longrightarrow> parse saved = Inr v \<Longrightarrow> \<not> projects_is_sequence v
     \<Longrightarrow> load_try parse cv st = Inr None"
  by (cases v) (auto simp: load_try_def projects_is_sequence_def split: option.splits json.splits)

lemma load_merges_over_default:
  "getItem st STORAGE_KEY = Some saved \<Longrightarrow> saved \<noteq> [] \<Longrightarrow> parse saved = Inr (JObj fs)
     \<Longrightarrow> map_of fs ''projects'' = Some (JArr xs)
     \<Longrightarrow> load parse cv st = Inr (JObj (spread (appStateFields cv defaultState) fs), [])"
  by (simp add: load_def load_try_def)

text \<open>
  The spread keeps JavaScript's property order: index keys first and ascending, a key
  that was there in its old place, the other new keys at the end (\<^verbatim>\<open>01\<close> is no index).
\<close>

lemma spread_index_keys_first:
  "spread [(''a'', JNull)]
     [(''10'', JBool True), (''b'', JNull), (''2'', JBool False), (''a'', JNum 1), (''01'', JNull)]
   = [(''2'', JBool False), (''10'', JBool True), (''a'', JNum 1), (''b'', JNull), (''01'', JNull)]"
  by (simp add: assign_def isIndex_def isDigit_def indexValue_def)

text \<open>
  Claim C3: the loader returns the built-in default dataset when the slot is absent, when
  parsing the stored text throws, and when the parsed value fails the shape check (its
  \<^verbatim>\<open>projects\<close> field is absent or not a sequence). It never lets an exception out: for
  every stored text and every behaviour of the parser the result is a state. (A parse
  failure also writes one warning to the console; an empty stored text is treated as
  absent and never parsed.)
\<close>

theorem load_falls_back_to_default:
  "(getItem st STORAGE_KEY = None \<longrightarrow>
      load parse cv st = Inr (JObj (appStateFields cv defaultState), []))
   \<and> (getItem st STORAGE_KEY = Some saved \<and> parse saved = Inl e \<longrightarrow>
      load parse cv st = Inr (JObj (appStateFields cv defaultState),
        if saved = [] then [] else [''SYSTEM: FAILED_TO_LOAD_PERSISTENT_STORAGE'']))
   \<and> (getItem st STORAGE_KEY = Some saved \<and> parse saved = Inr v \<and> \<not> projects_is_sequence v \<longrightarrow>
      load parse cv st = Inr (JObj (appStateFields cv defaultState), []))
   \<and> (\<exists>s log. load parse cv st = Inr (s, log))"
proof (intro conjI impI)
  assume "getItem st STORAGE_KEY = None"
  then show "load parse cv st = Inr (JObj (appStateFields cv defaultState), [])"
    by (simp add: load_def load_try_def)
next
  assume "getItem st STORAGE_KEY = Some saved \<and> parse saved = Inl e"
  then show "load parse cv st = Inr (JObj (appStateFields cv defaultState),
        if saved = [] then [] else [''SYSTEM: FAILED_TO_LOAD_PERSISTENT_STORAGE''])"
    by (simp add: load_def load_try_def)
next
  assume "getItem st STORAGE_KEY = Some saved \<and> parse saved = Inr v \<and> \<not> projects_is_sequence v"
  then show "load parse cv st = Inr (JObj (appStateFields cv defaultState), [])"
    by (simp add: load_def load_try_no_shape)
next
  show "\<exists>s log. load parse cv st = Inr (s, log)"
    by (simp add: load_def split: sum.splits option.splits)
qed

theorem load_falls_back_to_default_witness:
  "load sampleParse sampleCategory Map.empty
     = Inr (JObj (appStateFields sampleCategory defaultState), [])
   \<and> load sampleParse sampleCategory [STORAGE_KEY \<mapsto> ''{'']
     = Inr (JObj (appStateFields sampleCategory defaultState), [''SYSTEM: FAILED_TO_LOAD_PERSISTENT_STORAGE''])
   \<and> load sampleParse sampleCategory [STORAGE_KEY \<mapsto> ''{}'']
     = Inr (JObj (appStateFields sampleCategory defaultState), [])
   \<and> load sampleParse sampleCategory [STORAGE_KEY \<mapsto> ''[1]'']
     = Inr (JObj (appStateFields sampleCategory defaultState), [])
   \<and> load sampleParse sampleCategory [STORAGE_KEY \<mapsto> ''null'']
     = Inr (JObj (appStateFields sampleCategory defaultState), [])"
  using load_falls_back_to_default [where st = Map.empty and parse = sampleParse and cv = sampleCategory]
    load_falls_back_to_default [where st = "[STORAGE_KEY \<mapsto> ''{'']" and saved = "''{''"
      and parse = sampleParse and e = "ErrorNamed ''SyntaxError''" and cv = sampleCategory]
    load_falls_back_to_default [where st = "[STORAGE_KEY \<mapsto> ''{}'']" and saved = "''{}''"
      and parse = sampleParse and v = "JObj []" and cv = sampleCategory]
    load_falls_back_to_default [where st = "[STORAGE_KEY \<mapsto> ''[1]'']" and saved = "''[1]''"
      and parse = sampleParse and v = "JArr [JNum 1]" and cv = sampleCategory]
    load_falls_back_to_default [where st = "[STORAGE_KEY \<mapsto> ''null'']" and saved = "''null''"
      and parse = sampleParse and v = JNull and cv = sampleCategory]
  by (simp add: getItem_def sampleParse_def projects_is_sequence_def)

section \<open>Properties of the persistence synchronizer\<close>

lemma setState_fields:
  "state (setState f t app) = f (state app)"
  "setItemCalls (setState f t app) = setItemCalls app"
  "localStorage (setState f t app) = localStorage app"
  "alerts (setState f t app) = alerts app"
  "isSyncing (setState f t app) = True"
  "cleanup (setState f t app) = Some (nextTimer app)"
  by (simp_all add: setState_def effect_def setTimeout_def runCleanup_def clearTimeout_def
      split: option.splits)

text \<open>
  The cleanup is what cancels: with the pending timeout owned by the kept cleanup, a
  \<^verbatim>\<open>setState\<close> leaves exactly the new timeout pending.
\<close>

lemma setState_timers_owned:
  "pendingOwned app \<Longrightarrow> timers (setState f t app) = [(nextTimer app, t + 500, f (state app))]"
  by (auto simp: pendingOwned_def setState_def effect_def setTimeout_def runCleanup_def clearTimeout_def
      split: list.splits option.splits)

text \<open>
  Two runs of the effect with no cleanup between them leave two timeouts pending, and
  both fire: the second does not replace the first.
\<close>

lemma timeouts_are_independent:
  "timers (effect 100 (effect 0 (idle s st))) = [(0, 500, s), (1, 600, s)]
   \<and> setItemCalls (advance stringify quota 1000 (effect 100 (effect 0 (idle s st))))
     = [(500, STORAGE_KEY, stringify s), (600, STORAGE_KEY, stringify s)]"
  by (simp add: effect_def setTimeout_def idle_def advance_def dueTimeouts_def fire_def
      timeoutCallback_def Let_def split: sum.splits)

lemma advance_none_pending: "timers app = [] \<Longrightarrow> advance stringify quota t app = app"
  by (simp add: advance_def dueTimeouts_def)

lemma advance_one_pending:
  "timers app = [(i, due, snapshot)] \<Longrightarrow>
     advance stringify quota t app
       = (if due \<le> t then timeoutCallback stringify quota due snapshot (app\<lparr>timers := []\<rparr>) else app)"
  by (simp add: advance_def dueTimeouts_def fire_def)

lemma timeoutCallback_fields:
  "state (timeoutCallback stringify quota now snapshot app) = state app"
  "timers (timeoutCallback stringify quota now snapshot app) = timers app"
  "cleanup (timeoutCallback stringify quota now snapshot app) = cleanup app"
  "nextTimer (timeoutCallback stringify quota now snapshot app) = nextTimer app"
  "setItemCalls (timeoutCallback stringify quota now snapshot app)
     = setItemCalls app @ [(now, STORAGE_KEY, stringify snapshot)]"
  "localStorage (timeoutCallback stringify quota now snapshot app)
     = (if quota < length (stringify snapshot) then localStorage app
        else (localStorage app)(STORAGE_KEY \<mapsto> stringify snapshot))"
  by (simp_all add: timeoutCallback_def setItem_def Let_def)

lemma pendingOwned_cases:
  "pendingOwned app \<Longrightarrow>
     timers app = [] \<or> (\<exists>i due snapshot. timers app = [(i, due, snapshot)] \<and> cleanup app = Some i)"
  by (auto simp: pendingOwned_def split: list.splits)

lemma advance_state_owned: "pendingOwned app \<Longrightarrow> state (advance stringify quota t app) = state app"
  by (auto dest!: pendingOwned_cases simp: advance_none_pending advance_one_pending timeoutCallback_fields)

text \<open>Ownership holds at the start and is kept by every step, hence all along a timeline.\<close>

lemma pendingOwned_idle: "pendingOwned (idle s st)"
  by (simp add: pendingOwned_def idle_def)

lemma pendingOwned_mount: "pendingOwned (mount now s st)"
  by (simp add: pendingOwned_def mount_def idle_def effect_def setTimeout_def)

lemma pendingOwned_setState: "pendingOwned app \<Longrightarrow> pendingOwned (setState f t app)"
  by (simp add: pendingOwned_def [of "setState f t app"] setState_timers_owned setState_fields)

lemma pendingOwned_advance:
  assumes "pendingOwned app"
  shows "pendingOwned (advance stringify quota t app)"
proof -
  from pendingOwned_cases [OF assms] show ?thesis
  proof
    assume "timers app = []"
    then show ?thesis using assms by (simp add: advance_none_pending)
  next
    assume "\<exists>i due snapshot. timers app = [(i, due, snapshot)] \<and> cleanup app = Some i"
    then obtain i due snapshot where tm: "timers app = [(i, due, snapshot)]" by blast
    show ?thesis
    proof (cases "due \<le> t")
      case True
      then show ?thesis
        by (simp add: advance_one_pending [OF tm] pendingOwned_def timeoutCallback_fields)
    next
      case False
      then show ?thesis using assms by (simp add: advance_one_pending [OF tm])
    qed
  qed
qed

lemma pendingOwned_run: "pendingOwned app \<Longrightarrow> pendingOwned (run stringify quota T es app)"
  by (induction es arbitrary: app) (auto simp: pendingOwned_advance pendingOwned_setState)

text \<open>
  With one timeout pending for the current state and owned by the cleanup, a burst of
  further calls leads to one call of \<^verbatim>\<open>setItem\<close>, a window after the last of them and
  with the last state.
\<close>

lemma run_pending_burst:
  "timers app = [(i, t + 500, state app)] \<Longrightarrow> cleanup app = Some i \<Longrightarrow> burst t es \<Longrightarrow>
   setItemCalls (run stringify quota T es app)
     = setItemCalls app @
       (if lastTime t es + 500 \<le> T
        then [(lastTime t es + 500, STORAGE_KEY, stringify (finalState es (state app)))] else [])
   \<and> localStorage (run stringify quota T es app)
     = (if lastTime t es + 500 \<le> T \<and> length (stringify (finalState es (state app))) \<le> quota
        then (localStorage app)(STORAGE_KEY \<mapsto> stringify (finalState es (state app)))
        else localStorage app)"
proof (induction es arbitrary: app t i)
  case Nil
  then show ?case by (auto simp: advance_one_pending timeoutCallback_fields)
next
  case (Cons e es)
  obtain t' f where e: "e = (t', f)" by (cases e)
  from Cons.prems e have t': "t \<le> t'" "t' < t + 500" and b: "burst t' es" by simp_all
  have owned: "pendingOwned app"
    using Cons.prems(1,2) by (simp add: pendingOwned_def)
  have adv: "advance stringify quota t' app = app"
    using Cons.prems(1) t' by (simp add: advance_one_pending)
  let ?app = "setState f t' app"
  have tm: "timers ?app = [(nextTimer app, t' + 500, state ?app)]"
    using owned by (simp add: setState_timers_owned setState_fields)
  have cl: "cleanup ?app = Some (nextTimer app)" by (simp add: setState_fields)
  from Cons.IH [OF tm cl b] show ?case
    by (simp add: e adv setState_fields)
qed

lemma run_burst_owned:
  assumes "pendingOwned app" and "burst t es"
  shows "setItemCalls (run stringify quota T ((t, f) # es) app)
       = setItemCalls (advance stringify quota t app) @
         (if lastTime t es + 500 \<le> T
          then [(lastTime t es + 500, STORAGE_KEY, stringify (finalState ((t, f) # es) (state app)))]
          else [])
    \<and> localStorage (run stringify quota T ((t, f) # es) app)
       = (if lastTime t es + 500 \<le> T \<and> length (stringify (finalState ((t, f) # es) (state app))) \<le> quota
          then (localStorage (advance stringify quota t app))
                 (STORAGE_KEY \<mapsto> stringify (finalState ((t, f) # es) (state app)))
          else localStorage (advance stringify quota t app))"
proof -
  let ?adv = "advance stringify quota t app"
  let ?app = "setState f t ?adv"
  have owned: "pendingOwned ?adv" using assms(1) by (rule pendingOwned_advance)
  have st: "state ?adv = state app" using assms(1) by (rule advance_state_owned)
  have tm: "timers ?app = [(nextTimer ?adv, t + 500, state ?app)]"
    using owned by (simp add: setState_timers_owned setState_fields)
  have cl: "cleanup ?app = Some (nextTimer ?adv)" by (simp add: setState_fields)
  show ?thesis
    using run_pending_burst [OF tm cl assms(2), of stringify quota T]
    by (simp add: setState_fields st)
qed

text \<open>
  A declined deletion is no state change: the window of the change before it runs on.
  An accepted one is a state change and starts a new window.
\<close>

lemma declined_deletion_keeps_window:
  "setItemCalls (runActions stringify quota userDeclines T [(0, AddProject p), (300, DeleteProject i)] (idle s0 st))
     = (if 500 \<le> T then [(500, STORAGE_KEY, stringify (addProject p s0))] else [])"
  by (simp add: runActions_def idle_def advance_def dueTimeouts_def fire_def setState_def effect_def
      setTimeout_def runCleanup_def clearTimeout_def timeoutCallback_def Let_def split: sum.splits)

lemma accepted_deletion_restarts_window:
  "setItemCalls (runActions stringify quota userAccepts T [(0, AddProject p), (300, DeleteProject i)] (idle s0 st))
     = (if 800 \<le> T then [(800, STORAGE_KEY, stringify (deleteProject userAccepts i (addProject p s0)))] else [])"
  by (simp add: runActions_def idle_def advance_def dueTimeouts_def fire_def setState_def effect_def
      setTimeout_def runCleanup_def clearTimeout_def timeoutCallback_def Let_def split: sum.splits)

text \<open>
  Claim C1. From a state of the component whose pending timeout, if any, is the one its
  cleanup clears, a call of \<^verbatim>\<open>setState\<close> at time \<open>t\<close> followed by a burst \<open>es\<close> (each
  call less than 500 ms after the one before) causes exactly one call of \<^verbatim>\<open>setItem\<close>
  beyond those made before \<open>t\<close>: it happens 500 ms after the last call, once time \<open>T\<close>
  has got there, and it carries the state after the last call; the slot then holds that
  state if the backend accepts it. The same holds of the user's actions, of which a
  declined deletion is no state change. A state change that arrives while a timeout is
  pending cancels that timeout through the cleanup and starts a new window, with no
  write. The scenario of the specification (mutations at 0, 100 and 200 ms: one write, at
  700 ms, of the state as of 200 ms) is the instance that follows the theorem.
\<close>

theorem debounce_single_write:
  assumes "pendingOwned app" and "burst t es"
  shows "setItemCalls (run stringify quota T ((t, f) # es) app)
       = setItemCalls (advance stringify quota t app) @
         (if lastTime t es + 500 \<le> T
          then [(lastTime t es + 500, STORAGE_KEY, stringify (finalState ((t, f) # es) (state app)))]
          else [])
    \<and> localStorage (run stringify quota T ((t, f) # es) app)
       = (if lastTime t es + 500 \<le> T \<and> length (stringify (finalState ((t, f) # es) (state app))) \<le> quota
          then (localStorage (advance stringify quota t app))
                 (STORAGE_KEY \<mapsto> stringify (finalState ((t, f) # es) (state app)))
          else localStorage (advance stringify quota t app))
    \<and> (setStateCalls confirm actions = (t, f) # es \<longrightarrow>
         setItemCalls (runActions stringify quota confirm T actions app)
           = setItemCalls (advance stringify quota t app) @
             (if lastTime t es + 500 \<le> T
              then [(lastTime t es + 500, STORAGE_KEY, stringify (finalState ((t, f) # es) (state app)))]
              else []))
    \<and> (timers app = [(i, due, snapshot)] \<and> t < due \<longrightarrow>
           timers (run stringify quota t [(t, f)] app) = [(nextTimer app, t + 500, f (state app))]
         \<and> setItemCalls (run stringify quota t [(t, f)] app) = setItemCalls app
         \<and> localStorage (run stringify quota t [(t, f)] app) = localStorage app)"
proof (intro conjI impI)
  note main = run_burst_owned [OF assms, of stringify quota T f]
  show "setItemCalls (run stringify quota T ((t, f) # es) app)
       = setItemCalls (advance stringify quota t app) @
         (if lastTime t es + 500 \<le> T
          then [(lastTime t es + 500, STORAGE_KEY, stringify (finalState ((t, f) # es) (state app)))]
          else [])"
    using main by simp
  show "localStorage (run stringify quota T ((t, f) # es) app)
       = (if lastTime t es + 500 \<le> T \<and> length (stringify (finalState ((t, f) # es) (state app))) \<le> quota
          then (localStorage (advance stringify quota t app))
                 (STORAGE_KEY \<mapsto> stringify (finalState ((t, f) # es) (state app)))
          else localStorage (advance stringify quota t app))"
    using main by simp
  show "setItemCalls (runActions stringify quota confirm T actions app)
           = setItemCalls (advance stringify quota t app) @
             (if lastTime t es + 500 \<le> T
              then [(lastTime t es + 500, STORAGE_KEY, stringify (finalState ((t, f) # es) (state app)))]
              else [])"
    if "setStateCalls confirm actions = (t, f) # es"
    using main that by (simp add: runActions_def)
  assume pend: "timers app = [(i, due, snapshot)] \<and> t < due"
  then have adv: "advance stringify quota t app = app"
    by (simp add: advance_one_pending)
  show "timers (run stringify quota t [(t, f)] app) = [(nextTimer app, t + 500, f (state app))]"
    using assms(1) pend by (simp add: adv setState_timers_owned advance_one_pending)
  show "setItemCalls (run stringify quota t [(t, f)] app) = setItemCalls app"
    using assms(1) pend by (simp add: adv setState_timers_owned setState_fields advance_one_pending)
  show "localStorage (run stringify quota t [(t, f)] app) = localStorage app"
    using assms(1) pend by (simp add: adv setState_timers_owned setState_fields advance_one_pending)
qed

theorem debounce_single_write_witness:
  "\<forall>stringify quota T f1 f2 f3 s0 st p title' tagline' a i.
     setItemCalls (run stringify quota T [(0, f1), (100, f2), (200, f3)] (idle s0 st))
       = (if 700 \<le> T then [(700, STORAGE_KEY, stringify (f3 (f2 (f1 s0))))] else [])
     \<and> setItemCalls (run stringify quota T [(0, f1), (100, f2), (200, f3)] (mount 0 s0 st))
       = (if 700 \<le> T then [(700, STORAGE_KEY, stringify (f3 (f2 (f1 s0))))] else [])
     \<and> setItemCalls (runActions stringify quota userDeclines T
          [(0, AddProject p), (100, UpdateSettings title' tagline'), (200, AddArchiveItem a),
           (300, DeleteProject i)] (idle s0 st))
       = (if 700 \<le> T
          then [(700, STORAGE_KEY,
                 stringify (addArchiveItem a (updateSettings title' tagline' (addProject p s0))))]
          else [])"
proof (intro allI conjI)
  fix stringify :: "AppState \<Rightarrow> string" and quota T :: nat and f1 f2 f3 :: "AppState \<Rightarrow> AppState"
    and s0 :: AppState and st :: storage and p :: Project and title' tagline' :: string
    and a :: ArchiveItem and i :: string
  have b: "burst 0 [(100, f2), (200, f3)]" by simp
  show "setItemCalls (run stringify quota T [(0, f1), (100, f2), (200, f3)] (idle s0 st))
       = (if 700 \<le> T then [(700, STORAGE_KEY, stringify (f3 (f2 (f1 s0))))] else [])"
    using debounce_single_write [OF pendingOwned_idle b, of stringify quota T f1 s0 st]
    by (simp add: idle_def advance_none_pending)
  show "setItemCalls (run stringify quota T [(0, f1), (100, f2), (200, f3)] (mount 0 s0 st))
       = (if 700 \<le> T then [(700, STORAGE_KEY, stringify (f3 (f2 (f1 s0))))] else [])"
    using debounce_single_write [OF pendingOwned_mount b, of stringify quota T f1 0 s0 st]
    by (simp add: mount_def idle_def effect_def setTimeout_def advance_one_pending)
  have b': "burst 0 [(100, updateSettings title' tagline'), (200, addArchiveItem a)]" by simp
  show "setItemCalls (runActions stringify quota userDeclines T
          [(0, AddProject p), (100, UpdateSettings title' tagline'), (200, AddArchiveItem a),
           (300, DeleteProject i)] (idle s0 st))
       = (if 700 \<le> T
          then [(700, STORAGE_KEY,
                 stringify (addArchiveItem a (updateSettings title' tagline' (addProject p s0))))]
          else [])"
    using debounce_single_write [OF pendingOwned_idle b', of stringify quota T "addProject p" s0 st
        userDeclines "[(0, AddProject p), (100, UpdateSettings title' tagline'), (200, AddArchiveItem a),
           (300, DeleteProject i)]"]
    by (simp add: idle_def advance_none_pending)
qed

text \<open>
  Claim C2. When a timeout fires and the backend refuses the write for its size, the
  user sees the storage-limit alert; the state in memory and the content of the storage
  are what they were (nothing is evicted or compacted), and no timeout is left pending.
  A later mutation \<open>f\<close> at time \<open>t\<close> arms a timeout again: 500 ms later \<^verbatim>\<open>setItem\<close> is
  called with the new state, and the slot holds it if it now fits.
\<close>

theorem quota_exceeded_reported:
  assumes "timers app = [(i, due, snapshot)]" and "due \<le> T" and "quota < length (stringify snapshot)"
    and "T \<le> t"
  shows "alerts (advance stringify quota T app) = alerts app @ [''CRITICAL_ERROR: STORAGE_LIMIT_EXCEEDED.'']
    \<and> state (advance stringify quota T app) = state app
    \<and> localStorage (advance stringify quota T app) = localStorage app
    \<and> setItemCalls (advance stringify quota T app) = setItemCalls app @ [(due, STORAGE_KEY, stringify snapshot)]
    \<and> timers (advance stringify quota T app) = []
    \<and> \<not> isSyncing (advance stringify quota T app)
    \<and> setItemCalls (run stringify quota (t + 500) [(t, f)] (advance stringify quota T app))
           = setItemCalls (advance stringify quota T app) @ [(t + 500, STORAGE_KEY, stringify (f (state app)))]
    \<and> (length (stringify (f (state app))) \<le> quota \<longrightarrow>
           localStorage (run stringify quota (t + 500) [(t, f)] (advance stringify quota T app)) STORAGE_KEY
             = Some (stringify (f (state app))))"
proof -
  let ?adv = "advance stringify quota T app"
  have adv: "?adv = timeoutCallback stringify quota due snapshot (app\<lparr>timers := []\<rparr>)"
    using assms(1,2) by (simp add: advance_one_pending)
  have none: "timers ?adv = []" by (simp add: adv timeoutCallback_fields)
  have st: "state ?adv = state app" by (simp add: adv timeoutCallback_fields)
  have owned: "pendingOwned ?adv" using none by (simp add: pendingOwned_def)
  let ?app = "setState f t ?adv"
  have tm: "timers ?app = [(nextTimer ?adv, t + 500, f (state app))]"
    using owned by (simp add: setState_timers_owned st)
  have fin: "run stringify quota (t + 500) [(t, f)] ?adv
      = timeoutCallback stringify quota (t + 500) (f (state app)) (?app\<lparr>timers := []\<rparr>)"
    using tm none by (simp add: advance_none_pending advance_one_pending)
  have 1: "alerts ?adv = alerts app @ [''CRITICAL_ERROR: STORAGE_LIMIT_EXCEEDED.'']"
    using assms(3) by (simp add: adv timeoutCallback_def setItem_def Let_def)
  have 3: "localStorage ?adv = localStorage app"
    using assms(3) by (simp add: adv timeoutCallback_fields)
  have 4: "setItemCalls ?adv = setItemCalls app @ [(due, STORAGE_KEY, stringify snapshot)]"
    by (simp add: adv timeoutCallback_fields)
  have 6: "\<not> isSyncing ?adv"
    by (simp add: adv timeoutCallback_def setItem_def Let_def)
  have 7: "setItemCalls (run stringify quota (t + 500) [(t, f)] ?adv)
      = setItemCalls ?adv @ [(t + 500, STORAGE_KEY, stringify (f (state app)))]"
    by (simp only: fin timeoutCallback_fields) (simp add: setState_fields)
  have 8: "length (stringify (f (state app))) \<le> quota \<longrightarrow>
      localStorage (run stringify quota (t + 500) [(t, f)] ?adv) STORAGE_KEY = Some (stringify (f (state app)))"
    by (simp only: fin timeoutCallback_fields) simp
  show ?thesis using 1 st 3 4 none 6 7 8 by blast
qed

theorem quota_exceeded_reported_witness:
  "alerts (advance sampleStringify 10 500 (setState (addProject (hd INITIAL_PROJECTS)) 0 (idle defaultState Map.empty)))
     = [''CRITICAL_ERROR: STORAGE_LIMIT_EXCEEDED.'']
   \<and> state (advance sampleStringify 10 500 (setState (addProject (hd INITIAL_PROJECTS)) 0 (idle defaultState Map.empty)))
     = addProject (hd INITIAL_PROJECTS) defaultState
   \<and> localStorage (advance sampleStringify 10 500 (setState (addProject (hd INITIAL_PROJECTS)) 0 (idle defaultState Map.empty)))
     = Map.empty
   \<and> localStorage (run sampleStringify 10 1500 [(1000, updateSettings ''ODEMIND'' [])]
        (advance sampleStringify 10 500 (setState (addProject (hd INITIAL_PROJECTS)) 0 (idle defaultState Map.empty))))
        STORAGE_KEY
     = Some ''ODEMIND:''"
proof -
  let ?app = "setState (addProject (hd INITIAL_PROJECTS)) 0 (idle defaultState Map.empty)"
  have tm: "timers ?app = [(0, 500, addProject (hd INITIAL_PROJECTS) defaultState)]"
    using setState_timers_owned [OF pendingOwned_idle, of "addProject (hd INITIAL_PROJECTS)" 0 defaultState Map.empty]
    by (simp add: idle_def)
  have big: "10 < length (sampleStringify (addProject (hd INITIAL_PROJECTS) defaultState))"
    by (simp add: sampleStringify_def addProject_def defaultState_def)
  show ?thesis
    using quota_exceeded_reported [where app = ?app and i = 0 and due = 500
        and snapshot = "addProject (hd INITIAL_PROJECTS) defaultState" and T = 500 and quota = 10
        and stringify = sampleStringify and t = 1000 and f = "updateSettings ''ODEMIND'' []"] tm big
    by (simp add: setState_fields idle_def sampleStringify_def addProject_def defaultState_def updateSettings_def)
qed

section \<open>Properties of the image codec\<close>

text \<open>
  In \<^verbatim>\<open>part_001\<close> the promise always settles, and a failed decode resolves it with
  the empty string.
\<close>

lemma compressImage_part001_settles:
  "compressImage_part001 br s maxWidth quality
     = Resolved (case decode br s of Some dims \<Rightarrow> onload br s maxWidth quality dims | None \<Rightarrow> [])"
  by (simp add: compressImage_part001_def split: option.splits)

lemma compressImage_part001_decode_failure:
  "decode br s = None \<Longrightarrow> compressImage_part001 br s maxWidth quality = Resolved []"
  by (simp add: compressImage_part001_def)

lemma compressImage_AdminView_decode_failure:
  "decode br s = None \<Longrightarrow> compressImage_AdminView br s maxWidth quality = Pending"
  by (simp add: compressImage_AdminView_def)

lemma compressImage_AdminView_decoded:
  "decode br s = Some dims \<Longrightarrow>
     compressImage_AdminView br s maxWidth quality = Resolved (onload br s maxWidth quality dims)"
  by (simp add: compressImage_AdminView_def)

text \<open>
  Claim C4 at a source string that fails to decode. The \<^verbatim>\<open>compressImage\<close> of
  \<^verbatim>\<open>src/components/AdminView.tsx\<close> has no \<^verbatim>\<open>onerror\<close> handler: its promise stays pending,
  where the claim has it resolve with the empty string. The one of \<^verbatim>\<open>part_001\<close>
  resolves with the empty string on the same input.
\<close>

theorem compressImage_AdminView_hangs_on_decode_failure:
  "decode sampleBrowser (dataURL brokenFile) = None
   \<and> compressImage_AdminView sampleBrowser (dataURL brokenFile) 1000 (3 / 5) = Pending
   \<and> compressImage_part001 sampleBrowser (dataURL brokenFile) 600 (2 / 5) = Resolved []"
  by (simp add: compressImage_AdminView_def compressImage_part001_def sampleBrowser_def brokenFile_def)

section \<open>Properties of the media ingestion queue\<close>

text \<open>
  The loop of \<^verbatim>\<open>part_001\<close> always finishes. Its result lists the encodings of the
  accepted files that decoded, in the order of the files; every file over the ceiling
  adds one warning and is neither read nor handed to the codec.
\<close>

lemma loop_part001_result:
  "loop_part001 br files acc = Resolved
     (acc\<lparr>newUrls := newUrls acc @ filter (\<lambda>c. c \<noteq> []) (map (encoded_part001 br) (filter accepted files)),
          warnings := warnings acc @ map (\<lambda>f. ''SKIP: FILE_TOO_LARGE (>10MB)'') (filter (\<lambda>f. \<not> accepted f) files),
          filesRead := filesRead acc @ filter accepted files,
          decodes := decodes acc @ map dataURL (filter accepted files)\<rparr>)"
proof (induction files arbitrary: acc)
  case Nil
  show ?case by simp
next
  case (Cons x xs)
  show ?case
  proof (cases "accepted x")
    case False
    then show ?thesis
      by (simp add: Cons.IH accepted_def)
  next
    case True
    then show ?thesis
      by (cases "decode br (dataURL x)")
        (simp_all add: Cons.IH accepted_def encoded_part001_def compressImage_part001_def Let_def)
  qed
qed

lemma handleFileChange_part001_result:
  "handleFileChange_part001 br (Some files) form = Resolved
     (form\<lparr>formImageUrls := Some ((case formImageUrls form of None \<Rightarrow> [] | Some urls \<Rightarrow> urls)
               @ filter (\<lambda>c. c \<noteq> []) (map (encoded_part001 br) (filter accepted files))),
           isProcessing := False,
           alertsShown := alertsShown form
               @ map (\<lambda>f. ''SKIP: FILE_TOO_LARGE (>10MB)'') (filter (\<lambda>f. \<not> accepted f) files)\<rparr>)"
  by (simp add: handleFileChange_part001_def loop_part001_result finishBatch_def noIngestion_def)

text \<open>
  The loop of \<^verbatim>\<open>src/components/AdminView.tsx\<close> finishes exactly when every file decodes;
  it then lists the encodings of all files, whatever their size, and warns of nothing.
\<close>

lemma loop_AdminView_result:
  "loop_AdminView br files acc =
     (if list_all (\<lambda>f. decode br (dataURL f) \<noteq> None) files
      then Resolved
        (acc\<lparr>newUrls := newUrls acc @ map (encoded_AdminView br) files,
             filesRead := filesRead acc @ files,
             decodes := decodes acc @ map dataURL files\<rparr>)
      else Pending)"
proof (induction files arbitrary: acc)
  case Nil
  show ?case by simp
next
  case (Cons x xs)
  show ?case
    by (cases "decode br (dataURL x)")
      (simp_all add: Cons.IH encoded_AdminView_def compressImage_AdminView_def Let_def)
qed

text \<open>
  Claim C6 at a file one byte over 10 MiB, selected after a small one. The handler of
  \<^verbatim>\<open>src/components/AdminView.tsx\<close> has no size test: it reads and decodes the file,
  appends its encoding to the form's images and shows no warning, where the claim has it
  skipped with a warning. The handler of \<^verbatim>\<open>part_001\<close> skips it on the same input.
\<close>

theorem handleFileChange_AdminView_takes_oversize_file:
  "10 * 1024 * 1024 < size_f hugeFile
   \<and> handleFileChange_AdminView sampleBrowser (Some [smallFile, hugeFile]) emptyForm
     = Resolved \<lparr>formImageUrls = Some [''data:image/jpeg;base64,SMALL'', ''data:image/jpeg;base64,WIDE''],
         isProcessing = False, alertsShown = []\<rparr>
   \<and> loop_AdminView sampleBrowser [smallFile, hugeFile] noIngestion
     = Resolved \<lparr>newUrls = [''data:image/jpeg;base64,SMALL'', ''data:image/jpeg;base64,WIDE''],
         warnings = [], filesRead = [smallFile, hugeFile],
         decodes = [dataURL smallFile, dataURL hugeFile]\<rparr>
   \<and> handleFileChange_part001 sampleBrowser (Some [smallFile, hugeFile]) emptyForm
     = Resolved \<lparr>formImageUrls = Some [''data:image/jpeg;base64,SMALL''],
         isProcessing = False, alertsShown = [''SKIP: FILE_TOO_LARGE (>10MB)'']\<rparr>"
  by (simp add: handleFileChange_AdminView_def handleFileChange_part001_def compressImage_AdminView_def
      compressImage_part001_def sampleBrowser_def hugeFile_def smallFile_def emptyForm_def onload_def
      Let_def noIngestion_def finishBatch_def)

text \<open>
  Claim C7 at three files of which the second fails to decode. The queue of
  \<^verbatim>\<open>src/components/AdminView.tsx\<close> waits for ever on the codec's promise for the second
  file: the batch never finishes and no output is delivered, where the claim has
  the failure dropped and the two other encodings delivered in order. The queue of
  \<^verbatim>\<open>part_001\<close> delivers exactly those on the same input.
\<close>

theorem handleFileChange_AdminView_stalls_on_decode_failure:
  "handleFileChange_AdminView sampleBrowser (Some [wideFile, brokenFile, smallFile]) emptyForm = Pending
   \<and> handleFileChange_part001 sampleBrowser (Some [wideFile, brokenFile, smallFile]) emptyForm
     = Resolved \<lparr>formImageUrls = Some [''data:image/jpeg;base64,WIDE'', ''data:image/jpeg;base64,SMALL''],
         isProcessing = False, alertsShown = []\<rparr>"
  by (simp add: handleFileChange_AdminView_def handleFileChange_part001_def compressImage_AdminView_def
      compressImage_part001_def sampleBrowser_def wideFile_def brokenFile_def smallFile_def emptyForm_def
      onload_def Let_def noIngestion_def finishBatch_def)

section \<open>Properties of the import\<close>

text \<open>
  The import of \<^verbatim>\<open>part_001\<close> writes the slot that \<^verbatim>\<open>App\<close> loads from, for a document
  whose \<^verbatim>\<open>projects\<close> field is truthy, once the user has confirmed and if the backend
  accepts the text; it then reloads the page.
\<close>

lemma handleImport_part001_accepts:
  assumes "parse text = Inr json" and "getProp json ''projects'' = Inr field" and "truthy_opt field"
    and "confirm ''OVERWRITE CURRENT DATABASE?''" and "length (stringify json) \<le> quota"
  shows "handleImport_part001 parse stringify confirm quota (Some text) st
       = \<lparr>storageAfter = st(STORAGE_KEY \<mapsto> stringify json), importAlerts = [], reloaded = True\<rparr>"
  using assms by (simp add: handleImport_part001_def setItem_def STORAGE_KEY_def Let_def)

text \<open>The import of \<^verbatim>\<open>src/components/AdminView.tsx\<close> never changes that slot.\<close>

lemma handleImport_AdminView_leaves_storage_key:
  "storageAfter (handleImport_AdminView parse stringify confirm quota file st) STORAGE_KEY = st STORAGE_KEY"
  by (simp add: handleImport_AdminView_def setItem_def STORAGE_KEY_def Let_def
      split: option.splits sum.splits)

text \<open>
  Claim C5 at a document with both collections, confirmed by the user. The import of
  \<^verbatim>\<open>src/components/AdminView.tsx\<close> writes it under the key \<^verbatim>\<open>odemind_archive_v4_prod\<close>
  and reloads: the slot that the synchronizer writes and the loader reads stays empty,
  and the loader, run again after the reload, returns the default dataset. A document
  with a \<^verbatim>\<open>projects\<close> field only is not accepted by it at all. The import of
  \<^verbatim>\<open>part_001\<close> accepts both documents and writes them to the slot of \<^verbatim>\<open>App\<close>.
\<close>

theorem handleImport_AdminView_writes_other_slot:
  "handleImport_AdminView docParse docStringify userAccepts 5000000 (Some fullText) Map.empty
     = \<lparr>storageAfter = [''odemind_archive_v4_prod'' \<mapsto> fullText], importAlerts = [], reloaded = True\<rparr>
   \<and> storageAfter (handleImport_AdminView docParse docStringify userAccepts 5000000 (Some fullText) Map.empty)
        STORAGE_KEY = None
   \<and> load docParse sampleCategory
        (storageAfter (handleImport_AdminView docParse docStringify userAccepts 5000000 (Some fullText) Map.empty))
     = Inr (JObj (appStateFields sampleCategory defaultState), [])
   \<and> handleImport_AdminView docParse docStringify userAccepts 5000000 (Some projectsText) Map.empty
     = \<lparr>storageAfter = Map.empty, importAlerts = [], reloaded = False\<rparr>
   \<and> handleImport_part001 docParse docStringify userAccepts 5000000 (Some fullText) Map.empty
     = \<lparr>storageAfter = [STORAGE_KEY \<mapsto> fullText], importAlerts = [], reloaded = True\<rparr>
   \<and> handleImport_part001 docParse docStringify userAccepts 5000000 (Some projectsText) Map.empty
     = \<lparr>storageAfter = [STORAGE_KEY \<mapsto> projectsText], importAlerts = [], reloaded = True\<rparr>"
  by (simp add: handleImport_AdminView_def handleImport_part001_def docParse_def docStringify_def
      fullText_def projectsText_def fullDoc_def projectsDoc_def setItem_def STORAGE_KEY_def Let_def
      load_def load_try_def getItem_def)

end
